theory Spec2Isabelle
  imports Complex_Main "HOL-Library.AList"
begin

section \<open>The browser's document, as far as DOMutil.js calls it\<close>

text \<open>
  DOM nodes are object references; here a node is the number under which the document
  created it, and the nodes that exist are those below \<open>created\<close>. A value that is not
  an existing node stands for anything that is not a DOM node (\<open>undefined\<close>, \<open>null\<close>,
  a number): calling a DOM method on it is a \<open>TypeError\<close>.

  \<open>removed\<close> is the trace of the \<open>removeChild\<close> calls, in the order they were made.

  Assumptions about the browser: tag names are valid element names, so that
  \<open>createElement\<close> and \<open>createElementNS\<close> always return. A number is a finite double,
  read as the real number it denotes; what the machine computes from two doubles is left
  to the arithmetic given to \<open>drawBar\<close> below.
\<close>

type_synonym node = nat

datatype js_error = TypeError | ReferenceError | NotFoundError | HierarchyRequestError

datatype namespace = SVG | HTML

datatype attr = Num real | Str string

record document =
  created :: nat
  nodeName :: "node \<Rightarrow> namespace \<times> string"
  parentNode :: "node \<Rightarrow> node option"
  childNodes :: "node \<Rightarrow> node list"
  attributes :: "node \<Rightarrow> string \<Rightarrow> attr option"
  removed :: "node list"

definition isNode :: "document \<Rightarrow> node \<Rightarrow> bool" where
  "isNode d n = (n < created d)"

text \<open>\<open>document.createElementNS(ns, tag)\<close> and \<open>document.createElement(tag)\<close>: a new
  element, with no parent, no children and no attributes.\<close>

definition createElement :: "namespace \<Rightarrow> string \<Rightarrow> document \<Rightarrow> node \<times> document" where
  "createElement ns tag d =
     (created d,
      d\<lparr>created := Suc (created d),
        nodeName := (nodeName d)(created d := (ns, tag)),
        parentNode := (parentNode d)(created d := None),
        childNodes := (childNodes d)(created d := []),
        attributes := (attributes d)(created d := Map.empty)\<rparr>)"

text \<open>\<open>c.appendChild(el)\<close> for an element \<open>el\<close> that has no parent and no children, which
  is the only way the source calls it: \<open>el\<close> becomes the last child of \<open>c\<close>.\<close>

definition appendChild :: "node \<Rightarrow> node \<Rightarrow> document \<Rightarrow> js_error + document" where
  "appendChild c el d =
     (if \<not> isNode d c then Inl TypeError
      else if c = el then Inl HierarchyRequestError
      else Inr (d\<lparr>parentNode := (parentNode d)(el := Some c),
                  childNodes := (childNodes d)(c := childNodes d c @ [el])\<rparr>))"

text \<open>The fourth argument of \<open>getDOMElement\<close>: left out (\<open>undefined\<close>), \<open>null\<close>, or a
  reference to something.\<close>

datatype ref = Undefined | Null | Ref node

fun insert_before :: "node \<Rightarrow> node \<Rightarrow> node list \<Rightarrow> node list" where
  "insert_before el r [] = [el]"
| "insert_before el r (x # xs) = (if x = r then el # x # xs else x # insert_before el r xs)"

text \<open>\<open>c.insertBefore(el, r)\<close>, again for a parentless, childless \<open>el\<close>: with \<open>null\<close> it
  appends; a reference node that is not a child of \<open>c\<close> is a \<open>NotFoundError\<close>.\<close>

fun insertBefore :: "node \<Rightarrow> node \<Rightarrow> ref \<Rightarrow> document \<Rightarrow> js_error + document" where
  "insertBefore c el Null d = appendChild c el d"
| "insertBefore c el Undefined d = appendChild c el d"
| "insertBefore c el (Ref r) d =
     (if \<not> isNode d c \<or> \<not> isNode d r then Inl TypeError
      else if c = el then Inl HierarchyRequestError
      else if parentNode d r \<noteq> Some c then Inl NotFoundError
      else Inr (d\<lparr>parentNode := (parentNode d)(el := Some c),
                  childNodes := (childNodes d)(c := insert_before el r (childNodes d c))\<rparr>))"

text \<open>\<open>n.parentNode.removeChild(n)\<close>: a \<open>TypeError\<close> when \<open>n.parentNode\<close> is \<open>null\<close>.\<close>

definition removeFromParent :: "node \<Rightarrow> document \<Rightarrow> js_error + document" where
  "removeFromParent n d =
     (case parentNode d n of
        None \<Rightarrow> Inl TypeError
      | Some p \<Rightarrow>
          Inr (d\<lparr>parentNode := (parentNode d)(n := None),
                 childNodes := (childNodes d)(p := remove1 n (childNodes d p)),
                 removed := removed d @ [n]\<rparr>))"

definition setAttributeNS :: "node \<Rightarrow> string \<Rightarrow> attr \<Rightarrow> document \<Rightarrow> document" where
  "setAttributeNS el name v d =
     d\<lparr>attributes := (attributes d)(el := (attributes d el)(name \<mapsto> v))\<rparr>"

section \<open>The element pool of DOMutil.js\<close>

text \<open>
  The \<open>JSONcontainer\<close> is a plain object. \<open>own\<close> holds its own properties, the tag names
  seen so far in the order they were added (the order of \<open>for ... in\<close>), each with its
  \<open>{used: [...], redundant: [...]}\<close>. \<open>proto\<close> is what an assignment to the name
  \<open>__proto__\<close> has installed as the prototype of the container (\<open>None\<close> while that is
  still \<open>Object.prototype\<close>): such an assignment creates no own property.

  Every function returns the state it leaves behind together with how it ended, since a
  JavaScript exception leaves the mutations made before it in place.
\<close>

record entry =
  used :: "node list"
  redundant :: "node list"

record pool =
  own :: "(string \<times> entry) list"
  proto :: "entry option"

text \<open>The loop of \<open>prepareElements\<close> over the own properties (the inherited names that
  \<open>for ... in\<close> meets as well are skipped by the \<open>hasOwnProperty\<close> test).\<close>

fun prepareEntries :: "(string \<times> entry) list \<Rightarrow> (string \<times> entry) list" where
  "prepareEntries [] = []"
| "prepareEntries ((elementType, e) # es) =
     (elementType, e\<lparr>redundant := used e, used := []\<rparr>) # prepareEntries es"

definition prepareElements :: "pool \<Rightarrow> pool" where
  "prepareElements J = J\<lparr>own := prepareEntries (own J)\<rparr>"

text \<open>The inner loop of \<open>cleanupElements\<close> over one \<open>redundant\<close> array.\<close>

fun removeRedundant :: "node list \<Rightarrow> document \<Rightarrow> js_error option \<times> document" where
  "removeRedundant [] d = (None, d)"
| "removeRedundant (n # ns) d =
     (case removeFromParent n d of
        Inl err \<Rightarrow> (Some err, d)
      | Inr d' \<Rightarrow> removeRedundant ns d')"

text \<open>The outer loop of \<open>cleanupElements\<close> over the own properties.\<close>

fun cleanupEntries ::
  "(string \<times> entry) list \<Rightarrow> document \<Rightarrow> js_error option \<times> (string \<times> entry) list \<times> document" where
  "cleanupEntries [] d = (None, [], d)"
| "cleanupEntries ((elementType, e) # es) d =
     (case removeRedundant (redundant e) d of
        (Some err, d') \<Rightarrow> (Some err, (elementType, e) # es, d')
      | (None, d') \<Rightarrow>
          (case cleanupEntries es d' of
             (r, es', d'') \<Rightarrow> (r, (elementType, e\<lparr>redundant := []\<rparr>) # es', d'')))"

definition cleanupElements :: "pool \<Rightarrow> document \<Rightarrow> js_error option \<times> pool \<times> document" where
  "cleanupElements J d =
     (case cleanupEntries (own J) d of (r, es, d') \<Rightarrow> (r, J\<lparr>own := es\<rparr>, d'))"

definition resetElements :: "pool \<Rightarrow> document \<Rightarrow> js_error option \<times> pool \<times> document" where
  "resetElements J d =
     (case cleanupElements (prepareElements J) d of
        (Some err, J', d') \<Rightarrow> (Some err, J', d')
      | (None, J', d') \<Rightarrow> (None, prepareElements J', d'))"

text \<open>\<open>JSONcontainer[elementType] = {used: ..., redundant: ...}\<close> for a name that is not an
  own property: a new own property, added last; for the name \<open>__proto__\<close> the setter
  inherited from \<open>Object.prototype\<close> runs instead and makes the object the prototype of
  the container. The \<open>JSONcontainer[elementType].used.push(element)\<close> that follows
  reads the same object back in both cases.\<close>

definition assign :: "string \<Rightarrow> entry \<Rightarrow> pool \<Rightarrow> pool" where
  "assign elementType e J =
     (if elementType = ''__proto__'' then J\<lparr>proto := Some e\<rparr>
      else J\<lparr>own := own J @ [(elementType, e)]\<rparr>)"

definition getSVGElement ::
  "string \<Rightarrow> pool \<Rightarrow> node \<Rightarrow> document \<Rightarrow> (js_error + node) \<times> pool \<times> document" where
  "getSVGElement elementType J svgContainer d =
     (case map_of (own J) elementType of
        Some e \<Rightarrow>
          (case redundant e of
             x # xs \<Rightarrow>
               (Inr x,
                J\<lparr>own := AList.update elementType (e\<lparr>redundant := xs, used := used e @ [x]\<rparr>) (own J)\<rparr>,
                d)
           | [] \<Rightarrow>
               (case createElement SVG elementType d of
                  (element, d1) \<Rightarrow>
                    (case appendChild svgContainer element d1 of
                       Inl err \<Rightarrow> (Inl err, J, d1)
                     | Inr d2 \<Rightarrow>
                         (Inr element,
                          J\<lparr>own := AList.update elementType (e\<lparr>used := used e @ [element]\<rparr>) (own J)\<rparr>,
                          d2))))
      | None \<Rightarrow>
          (case createElement SVG elementType d of
             (element, d1) \<Rightarrow>
               (case appendChild svgContainer element d1 of
                  Inl err \<Rightarrow> (Inl err, assign elementType \<lparr>used = [], redundant = []\<rparr> J, d1)
                | Inr d2 \<Rightarrow>
                    (Inr element, assign elementType \<lparr>used = [element], redundant = []\<rparr> J, d2))))"

text \<open>\<open>getDOMElement\<close> places a new element with \<open>insertBefore\<close> when its fourth argument is
  not \<open>undefined\<close>, and with \<open>appendChild\<close> otherwise.\<close>

definition place :: "node \<Rightarrow> node \<Rightarrow> ref \<Rightarrow> document \<Rightarrow> js_error + document" where
  "place DOMContainer element before d =
     (if before \<noteq> Undefined then insertBefore DOMContainer element before d
      else appendChild DOMContainer element d)"

definition getDOMElement ::
  "string \<Rightarrow> pool \<Rightarrow> node \<Rightarrow> ref \<Rightarrow> document \<Rightarrow> (js_error + node) \<times> pool \<times> document" where
  "getDOMElement elementType J DOMContainer before d =
     (case map_of (own J) elementType of
        Some e \<Rightarrow>
          (case redundant e of
             x # xs \<Rightarrow>
               (Inr x,
                J\<lparr>own := AList.update elementType (e\<lparr>redundant := xs, used := used e @ [x]\<rparr>) (own J)\<rparr>,
                d)
           | [] \<Rightarrow>
               (case createElement HTML elementType d of
                  (element, d1) \<Rightarrow>
                    (case place DOMContainer element before d1 of
                       Inl err \<Rightarrow> (Inl err, J, d1)
                     | Inr d2 \<Rightarrow>
                         (Inr element,
                          J\<lparr>own := AList.update elementType (e\<lparr>used := used e @ [element]\<rparr>) (own J)\<rparr>,
                          d2))))
      | None \<Rightarrow>
          (case createElement HTML elementType d of
             (element, d1) \<Rightarrow>
               (case place DOMContainer element before d1 of
                  Inl err \<Rightarrow> (Inl err, assign elementType \<lparr>used = [], redundant = []\<rparr> J, d1)
                | Inr d2 \<Rightarrow>
                    (Inr element, assign elementType \<lparr>used = [element], redundant = []\<rparr> J, d2))))"

text \<open>
  \<open>drawBar\<close>. Its numbers are doubles; \<open>times ar a b\<close> and \<open>minus ar a b\<close> are the doubles
  that the machine computes for \<open>a * b\<close> and \<open>a - b\<close> (rounded, so in general not the real
  product and difference). The comparisons of a double with 0 are those of the real
  number it denotes. \<open>style\<close> is a string or left out; \<open>if (style)\<close> holds for a non-empty
  string.
\<close>

record arithmetic =
  times :: "real \<Rightarrow> real \<Rightarrow> real"
  minus :: "real \<Rightarrow> real \<Rightarrow> real"

definition drawBar ::
  "arithmetic \<Rightarrow> real \<Rightarrow> real \<Rightarrow> real \<Rightarrow> real \<Rightarrow> string \<Rightarrow> pool \<Rightarrow> node \<Rightarrow> string option
     \<Rightarrow> document \<Rightarrow> js_error option \<times> pool \<times> document" where
  "drawBar ar x y width height className J svgContainer style d =
     (if height \<noteq> 0 then
        (let height' = (if height < 0 then times ar height (- 1) else height);
             y' = (if height < 0 then minus ar y height' else y)
         in case getSVGElement ''rect'' J svgContainer d of
              (Inl err, J', d') \<Rightarrow> (Some err, J', d')
            | (Inr rect, J', d') \<Rightarrow>
                (let d1 = setAttributeNS rect ''x'' (Num (minus ar x (times ar 0.5 width))) d';
                     d2 = setAttributeNS rect ''y'' (Num y') d1;
                     d3 = setAttributeNS rect ''width'' (Num width) d2;
                     d4 = setAttributeNS rect ''height'' (Num height') d3;
                     d5 = setAttributeNS rect ''class'' (Str className) d4
                 in (None, J',
                     (case style of
                        Some s \<Rightarrow> if s \<noteq> [] then setAttributeNS rect ''style'' (Str s) d5 else d5
                      | None \<Rightarrow> d5))))
      else (None, J, d))"

section \<open>Sequences of pool operations\<close>

text \<open>One call of \<open>getSVGElement\<close> or \<open>getDOMElement\<close> with its tag, its container and (for
  the latter) its \<open>insertBefore\<close> argument.\<close>

datatype request = SVGElement string node | DOMElement string node ref

fun get :: "request \<Rightarrow> pool \<Rightarrow> document \<Rightarrow> (js_error + node) \<times> pool \<times> document" where
  "get (SVGElement elementType svgContainer) J d = getSVGElement elementType J svgContainer d"
| "get (DOMElement elementType DOMContainer before) J d =
     getDOMElement elementType J DOMContainer before d"

datatype operation = Prepare | Cleanup | Reset | Get request

text \<open>The state one call leaves behind, whether it returned or threw: a caller that catches
  the exception goes on with that state.\<close>

fun step :: "operation \<Rightarrow> pool \<times> document \<Rightarrow> pool \<times> document" where
  "step Prepare (J, d) = (prepareElements J, d)"
| "step Cleanup (J, d) = snd (cleanupElements J d)"
| "step Reset (J, d) = snd (resetElements J d)"
| "step (Get r) (J, d) = snd (get r J d)"

fun run :: "operation list \<Rightarrow> pool \<times> document \<Rightarrow> pool \<times> document" where
  "run [] s = s"
| "run (x # ops) s = run ops (step x s)"

text \<open>A draw pass: \<open>prepareElements\<close>, the acquisitions, \<open>cleanupElements\<close>.\<close>

definition cycle :: "request list \<Rightarrow> pool \<times> document \<Rightarrow> pool \<times> document" where
  "cycle rs s = run (Prepare # map Get rs @ [Cleanup]) s"

text \<open>The page the concrete runs below start from: its only node, 0, is the \<open>svg\<close> element
  that serves as container; and the empty pool \<open>{}\<close>.\<close>

definition doc0 :: document where
  "doc0 = \<lparr>created = 1, nodeName = (\<lambda>_. (SVG, ''svg'')), parentNode = (\<lambda>_. None),
            childNodes = (\<lambda>_. []), attributes = (\<lambda>_. Map.empty), removed = []\<rparr>"

definition emptyPool :: pool where
  "emptyPool = \<lparr>own = [], proto = None\<rparr>"

text \<open>The pool and page after \<open>getSVGElement('rect', ...)\<close> and \<open>prepareElements\<close>: node 1,
  a child of node 0, is the one redundant \<open>rect\<close>.\<close>

definition leftover :: "pool \<times> document" where
  "leftover = run [Get (SVGElement ''rect'' 0), Prepare] (emptyPool, doc0)"

text \<open>The pool and page after \<open>getSVGElement('__proto__', ...)\<close> on the empty pool.\<close>

definition protoOnce :: "pool \<times> document" where
  "protoOnce = run [Get (SVGElement ''__proto__'' 0)] (emptyPool, doc0)"

section \<open>JavaScript values\<close>

text \<open>\<open>JSObject\<close> is an object that has the page's \<open>Object.prototype\<close> on its prototype
  chain; \<open>JSBareObject\<close> is one that has not (made by \<open>Object.create(null)\<close>, or handed
  over from another frame).\<close>

datatype jsvalue =
    JSUndefined | JSNull | JSBool bool | JSNumber real | JSString string
  | JSArray "jsvalue list" | JSObject "(string \<times> jsvalue) list"
  | JSBareObject "(string \<times> jsvalue) list"

text \<open>What \<open>if (v)\<close>, \<open>!v\<close>, \<open>v && ...\<close> and \<open>v || ...\<close> test.\<close>

fun truthy :: "jsvalue \<Rightarrow> bool" where
  "truthy JSUndefined = False"
| "truthy JSNull = False"
| "truthy (JSBool b) = b"
| "truthy (JSNumber n) = (n \<noteq> 0)"
| "truthy (JSString s) = (s \<noteq> [])"
| "truthy (JSArray xs) = True"
| "truthy (JSObject ps) = True"
| "truthy (JSBareObject ps) = True"

text \<open>\<open>v.length\<close>: a \<open>TypeError\<close> on \<open>undefined\<close> and \<open>null\<close>.\<close>

fun getLength :: "jsvalue \<Rightarrow> js_error + jsvalue" where
  "getLength JSUndefined = Inl TypeError"
| "getLength JSNull = Inl TypeError"
| "getLength (JSString s) = Inr (JSNumber (real (length s)))"
| "getLength (JSArray xs) = Inr (JSNumber (real (length xs)))"
| "getLength (JSObject ps) = Inr (case map_of ps ''length'' of Some v \<Rightarrow> v | None \<Rightarrow> JSUndefined)"
| "getLength (JSBareObject ps) =
     Inr (case map_of ps ''length'' of Some v \<Rightarrow> v | None \<Rightarrow> JSUndefined)"
| "getLength v = Inr JSUndefined"

fun isArray :: "jsvalue \<Rightarrow> bool" where
  "isArray (JSArray xs) = True"
| "isArray v = False"

text \<open>\<open>v instanceof Object\<close>: whether the page's \<open>Object.prototype\<close> is on the prototype
  chain of \<open>v\<close>. No primitive value is, and no bare object.\<close>

fun instanceofObject :: "jsvalue \<Rightarrow> bool" where
  "instanceofObject (JSArray xs) = True"
| "instanceofObject (JSObject ps) = True"
| "instanceofObject v = False"

section \<open>getNavigatorLanguage\<close>

text \<open>
  The global \<open>navigator\<close> may be undeclared (reading it is a \<open>ReferenceError\<close>), declared
  with a falsy value, or an object. Reading a property of that object gives a value or
  throws (a getter that throws).
\<close>

datatype access = Gives jsvalue | Throws js_error

record navigator =
  languages :: access
  userLanguage :: access
  language :: access
  browserLanguage :: access

datatype global_navigator = Undeclared | Falsy | Navigator navigator

text \<open>\<open>navigator.userLanguage || navigator.language || navigator.browserLanguage || 'en'\<close>\<close>

definition otherLanguage :: "navigator \<Rightarrow> js_error + jsvalue" where
  "otherLanguage n =
     (case userLanguage n of
        Throws err \<Rightarrow> Inl err
      | Gives u \<Rightarrow>
          if truthy u then Inr u
          else
            (case language n of
               Throws err \<Rightarrow> Inl err
             | Gives v \<Rightarrow>
                 if truthy v then Inr v
                 else
                   (case browserLanguage n of
                      Throws err \<Rightarrow> Inl err
                    | Gives b \<Rightarrow> if truthy b then Inr b else Inr (JSString ''en''))))"

text \<open>The body of the \<open>try\<close> block: \<open>Inl\<close> is an exception thrown inside it.\<close>

definition tryNavigatorLanguage :: "global_navigator \<Rightarrow> js_error + jsvalue" where
  "tryNavigatorLanguage nav =
     (case nav of
        Undeclared \<Rightarrow> Inl ReferenceError
      | Falsy \<Rightarrow> Inr (JSString ''en'')
      | Navigator n \<Rightarrow>
          (case languages n of
             Throws err \<Rightarrow> Inl err
           | Gives l \<Rightarrow>
               if truthy l then
                 (case getLength l of
                    Inl err \<Rightarrow> Inl err
                  | Inr len \<Rightarrow> if truthy len then Inr l else otherLanguage n)
               else otherLanguage n))"

text \<open>The whole function: \<open>catch (error) { return 'en'; }\<close> around that body.\<close>

definition getNavigatorLanguage :: "global_navigator \<Rightarrow> js_error + jsvalue" where
  "getNavigatorLanguage nav =
     (case tryNavigatorLanguage nav of
        Inl error \<Rightarrow> Inr (JSString ''en'')
      | Inr v \<Rightarrow> Inr v)"

section \<open>Graph2d\<close>

text \<open>
  The third and fourth constructor arguments after the first statement of \<open>Graph2d\<close>, as
  (groups, options). \<open>isDataViewLike\<close> comes from \<open>util.js\<close>, which is not part of the
  sources at hand: it is a parameter.
\<close>

definition Graph2d_arguments ::
  "(jsvalue \<Rightarrow> bool) \<Rightarrow> jsvalue \<Rightarrow> jsvalue \<Rightarrow> jsvalue \<times> jsvalue" where
  "Graph2d_arguments isDataViewLike groups options =
     (if \<not> (isArray groups \<or> isDataViewLike groups) \<and> instanceofObject groups
      then (options, groups) else (groups, options))"

text \<open>The calls the constructor makes on the new instance with its arguments, in order
  (the creation of the DOM and of the components in between takes no argument of the
  constructor but the container).\<close>

datatype method_call = SetOptions jsvalue | SetGroups jsvalue | SetItems jsvalue | Redraw

definition Graph2d ::
  "(jsvalue \<Rightarrow> bool) \<Rightarrow> jsvalue \<Rightarrow> jsvalue \<Rightarrow> jsvalue \<Rightarrow> method_call list" where
  "Graph2d isDataViewLike items groups options =
     (case Graph2d_arguments isDataViewLike groups options of
        (groups', options') \<Rightarrow>
          (if truthy options' then [SetOptions options'] else []) @
          (if truthy groups' then [SetGroups groups'] else []) @
          (if truthy items then [SetItems items] else []) @
          [Redraw])"

text \<open>
  \<open>Graph2d.prototype.setOptions\<close>. \<open>Validator.validate\<close> and \<open>Core.prototype.setOptions\<close>
  are not part of the sources at hand and are parameters. \<open>validate\<close> gives the lines it
  writes to the console and then either throws or returns a value (the call is not inside
  a \<open>try\<close>, so its exception is the exception of \<open>setOptions\<close>); \<open>coreSetOptions\<close> changes
  the instance or throws. The state is the console with the instance.
\<close>

definition errorsFound :: string where
  "errorsFound = ''%cErrors have been found in the supplied options object.''"

definition setOptions ::
  "('o \<Rightarrow> string list \<times> (js_error + jsvalue)) \<Rightarrow> ('o \<Rightarrow> 'g \<Rightarrow> js_error + 'g) \<Rightarrow> 'o
     \<Rightarrow> string list \<times> 'g \<Rightarrow> string list \<times> (js_error + 'g)" where
  "setOptions validate coreSetOptions options s =
     (case s of (console, this) \<Rightarrow>
        (case validate options of
           (written, Inl err) \<Rightarrow> (console @ written, Inl err)
         | (written, Inr errorFound) \<Rightarrow>
             (if errorFound = JSBool True then console @ written @ [errorsFound]
              else console @ written,
              coreSetOptions options this)))"

text \<open>Modelled from the spec: \<open>Validator.validate\<close> (\<open>shared/Validator.js\<close>, not part of the
  sources at hand). The specification says of it that option validation logs warnings to
  the console rather than throwing: on every options object it writes its lines and
  returns whether it found errors.\<close>

definition logsRatherThanThrows :: "('o \<Rightarrow> string list \<times> (js_error + jsvalue)) \<Rightarrow> bool" where
  "logsRatherThanThrows validate =
     (\<forall>options. \<exists>written errorFound. validate options = (written, Inr (JSBool errorFound)))"

text \<open>
  \<open>Graph2d.prototype.getLegend\<close>. \<open>this.linegraph.groups\<close> is a plain object whose own
  properties are the groups by id (\<open>getDataRange\<close> walks it with \<open>for ... in\<close> and
  \<open>hasOwnProperty\<close>), so that reading \<open>groups[groupId]\<close> finds an own property, or else a
  member inherited from \<open>Object.prototype\<close>, or else \<open>undefined\<close>. \<open>groupLegend\<close> is the
  \<open>getLegend\<close> method of a group (\<open>GraphGroup\<close>, not part of the sources at hand), which
  returns a legend or throws; no inherited member has such a method, and calling
  \<open>undefined\<close> is a \<open>TypeError\<close>.
\<close>

definition objectPrototypeNames :: "string list" where
  "objectPrototypeNames =
     [''constructor'', ''__defineGetter__'', ''__defineSetter__'', ''hasOwnProperty'',
      ''__lookupGetter__'', ''__lookupSetter__'', ''isPrototypeOf'', ''propertyIsEnumerable'',
      ''toString'', ''valueOf'', ''__proto__'', ''toLocaleString'']"

datatype 'g member = Group 'g | Inherited

definition readGroup :: "(string \<Rightarrow> 'g option) \<Rightarrow> string \<Rightarrow> 'g member option" where
  "readGroup groups groupId =
     (case groups groupId of
        Some g \<Rightarrow> Some (Group g)
      | None \<Rightarrow> if groupId \<in> set objectPrototypeNames then Some Inherited else None)"

datatype 'l legend = Legend 'l | Message string

definition getLegend ::
  "('g \<Rightarrow> jsvalue \<Rightarrow> jsvalue \<Rightarrow> js_error + 'l) \<Rightarrow> (string \<Rightarrow> 'g option)
     \<Rightarrow> string \<Rightarrow> jsvalue \<Rightarrow> jsvalue \<Rightarrow> js_error + 'l legend" where
  "getLegend groupLegend groups groupId width height =
     (let width' = (if width = JSUndefined then JSNumber 15 else width);
          height' = (if height = JSUndefined then JSNumber 15 else height)
      in case readGroup groups groupId of
           Some (Group g) \<Rightarrow>
             (case groupLegend g width' height' of
                Inl err \<Rightarrow> Inl err
              | Inr l \<Rightarrow> Inr (Legend l))
         | Some Inherited \<Rightarrow> Inl TypeError
         | None \<Rightarrow> Inr (Message (''cannot find group:'' @ [CHR 0x27] @ groupId @ [CHR 0x27])))"

text \<open>
  The handler of \<open>'changed'\<close> that the constructor installs. The instance fields it reads
  and does not write, with the outcome of the \<open>Core\<close> methods it calls (\<open>getItemRange\<close>,
  \<open>setWindow\<close>, \<open>fit\<close>: not part of the sources at hand), are what one event finds:
  \<open>found\<close> when the handler starts, and \<open>afterFit\<close>, the exception thrown by those calls or
  what they leave behind.
\<close>

record surroundings =
  itemsDataNull :: bool
  start :: jsvalue
  end' :: jsvalue
  rollingMode :: jsvalue
  onInitialDrawComplete :: bool
  initialRangeChangeDone :: bool

record changed_event =
  found :: surroundings
  afterFit :: "js_error + surroundings"

text \<open>What the handler writes: its two flags, the visibility of the root, the loading
  screen (attached or not), and the callbacks given to \<open>setTimeout(..., 0)\<close>, counted.\<close>

record graph2d =
  initialFitDone :: bool
  initialDrawDone :: bool
  rootVisible :: bool
  loadingScreenAttached :: bool
  timeouts :: nat

definition initialDraw :: "surroundings \<Rightarrow> graph2d \<Rightarrow> js_error option \<times> graph2d" where
  "initialDraw s me =
     (if \<not> initialDrawDone me \<and>
         (initialRangeChangeDone s \<or> (\<not> truthy (start s) \<and> \<not> truthy (end' s)) \<or>
          truthy (rollingMode s))
      then
        (let me1 = me\<lparr>initialDrawDone := True, rootVisible := True\<rparr> in
         if \<not> loadingScreenAttached me1 then (Some TypeError, me1)
         else
           (let me2 = me1\<lparr>loadingScreenAttached := False\<rparr> in
            (None, if onInitialDrawComplete s then me2\<lparr>timeouts := Suc (timeouts me2)\<rparr> else me2)))
      else (None, me))"

definition changed :: "changed_event \<Rightarrow> graph2d \<Rightarrow> js_error option \<times> graph2d" where
  "changed ev me =
     (if itemsDataNull (found ev) then (None, me)
      else if \<not> initialFitDone me \<and> \<not> truthy (rollingMode (found ev)) then
        (case afterFit ev of
           Inl err \<Rightarrow> (Some err, me\<lparr>initialFitDone := True\<rparr>)
         | Inr s \<Rightarrow> initialDraw s (me\<lparr>initialFitDone := True\<rparr>))
      else initialDraw (found ev) me)"

text \<open>A sequence of \<open>'changed'\<close> events: an exception ends one handler run, not the
  instance.\<close>

fun emit :: "changed_event list \<Rightarrow> graph2d \<Rightarrow> graph2d" where
  "emit [] me = me"
| "emit (ev # evs) me = emit evs (snd (changed ev me))"

section \<open>Concrete inputs\<close>

text \<open>A \<open>navigator\<close> whose \<open>userLanguage\<close> getter throws.\<close>

definition throwingNavigator :: navigator where
  "throwingNavigator =
     \<lparr>languages = Gives JSUndefined, userLanguage = Throws TypeError,
      language = Gives (JSString ''de''), browserLanguage = Gives JSUndefined\<rparr>"

text \<open>A new instance, and a \<open>'changed'\<close> event that finds items, no \<open>start\<close> and no \<open>end\<close>
  option, and an \<open>onInitialDrawComplete\<close> callback.\<close>

definition newGraph2d :: graph2d where
  "newGraph2d = \<lparr>initialFitDone = False, initialDrawDone = False, rootVisible = False,
                  loadingScreenAttached = True, timeouts = 0\<rparr>"

definition firstChange :: changed_event where
  "firstChange =
     \<lparr>found = \<lparr>itemsDataNull = False, start = JSUndefined, end' = JSUndefined,
               rollingMode = JSUndefined, onInitialDrawComplete = True,
               initialRangeChangeDone = False\<rparr>,
      afterFit = Inr \<lparr>itemsDataNull = False, start = JSUndefined, end' = JSUndefined,
               rollingMode = JSUndefined, onInitialDrawComplete = True,
               initialRangeChangeDone = True\<rparr>\<rparr>"

text \<open>An arithmetic that rounds: its differences lose an operand smaller than 1.\<close>

definition coarse :: arithmetic where
  "coarse = \<lparr>times = (\<lambda>a b. a * b), minus = (\<lambda>a b. if \<bar>b\<bar> < 1 then a else a - b)\<rparr>"

text \<open>The \<open>used\<close> array that a pool holds for a tag among its own properties, empty for a
  tag that is none of them.\<close>

definition used_of :: "pool \<Rightarrow> string \<Rightarrow> node list" where
  "used_of J t = (case map_of (own J) t of None \<Rightarrow> [] | Some e \<Rightarrow> used e)"

section \<open>Properties of the element pool\<close>

lemmas pool_run =
  getSVGElement_def getDOMElement_def createElement_def appendChild_def place_def assign_def
  isNode_def removeFromParent_def prepareElements_def cleanupElements_def resetElements_def
  cycle_def doc0_def emptyPool_def

lemma leftover_eq:
  "leftover =
     (\<lparr>own = [(''rect'', \<lparr>used = [], redundant = [1]\<rparr>)], proto = None\<rparr>,
      \<lparr>created = 2, nodeName = (\<lambda>_. (SVG, ''svg''))(1 := (SVG, ''rect'')),
       parentNode = (\<lambda>_. None)(1 := Some 0), childNodes = (\<lambda>_. [])(1 := [], 0 := [1]),
       attributes = (\<lambda>_. Map.empty)(1 := Map.empty), removed = []\<rparr>)"
  by (simp add: leftover_def pool_run)

text \<open>For every tag that is an own property, and for every new tag but \<open>__proto__\<close>, the
  two functions do what is expected of them: they hand out the first redundant node if
  there is one, and the element they return is the new last element of the tag's \<open>used\<close>
  array.\<close>

lemma acquire_other_tags:
  "(map_of (own J) t = Some e \<and> redundant e = x # xs \<longrightarrow>
      getSVGElement t J c d =
        (Inr x, J\<lparr>own := AList.update t (e\<lparr>redundant := xs, used := used e @ [x]\<rparr>) (own J)\<rparr>, d) \<and>
      getDOMElement t J c b d =
        (Inr x, J\<lparr>own := AList.update t (e\<lparr>redundant := xs, used := used e @ [x]\<rparr>) (own J)\<rparr>, d)) \<and>
   (t \<noteq> ''__proto__'' \<and>
    (getSVGElement t J c d = (Inr el, J', d') \<or> getDOMElement t J c b d = (Inr el, J', d'))
      \<longrightarrow> used_of J' t = used_of J t @ [el])"
  by (auto simp: getSVGElement_def getDOMElement_def used_of_def assign_def update_conv'
        map_add_def createElement_def split: option.splits list.splits sum.splits)

text \<open>
  Claim C3, at the tag \<open>__proto__\<close> (a valid element name). The claim has every returned
  element appended to the tag's \<open>used\<close> array, and an unused node of the tag handed out
  before a new one is made. The code: on the empty pool \<open>getSVGElement('__proto__', ...)\<close>
  creates node 1 under the container and returns it, and the pool has no own property
  afterwards: the object that holds node 1 has become the prototype of the container. A
  second call (\<open>getSVGElement\<close> or \<open>getDOMElement\<close>) finds no own property again, creates
  node 2 and installs a fresh object, whose \<open>used\<close> array is \<open>[2]\<close>, not \<open>[1, 2]\<close>.
  \<open>prepareElements\<close> and \<open>cleanupElements\<close> do not see these nodes: after two draw passes
  both are still children of the container, nothing was reused and nothing removed.
\<close>

theorem acquire_proto_tag:
  "getSVGElement ''__proto__'' emptyPool 0 doc0 = (Inr 1, fst protoOnce, snd protoOnce) \<and>
   fst protoOnce = \<lparr>own = [], proto = Some \<lparr>used = [1], redundant = []\<rparr>\<rparr> \<and>
   parentNode (snd protoOnce) 1 = Some 0 \<and>
   fst (getSVGElement ''__proto__'' (fst protoOnce) 0 (snd protoOnce)) = Inr 2 \<and>
   fst (snd (getSVGElement ''__proto__'' (fst protoOnce) 0 (snd protoOnce)))
     = \<lparr>own = [], proto = Some \<lparr>used = [2], redundant = []\<rparr>\<rparr> \<and>
   fst (getDOMElement ''__proto__'' (fst protoOnce) 0 Undefined (snd protoOnce)) = Inr 2 \<and>
   fst (snd (getDOMElement ''__proto__'' (fst protoOnce) 0 Undefined (snd protoOnce)))
     = \<lparr>own = [], proto = Some \<lparr>used = [2], redundant = []\<rparr>\<rparr> \<and>
   prepareElements (fst protoOnce) = fst protoOnce \<and>
   cleanupElements (fst protoOnce) (snd protoOnce) = (None, fst protoOnce, snd protoOnce) \<and>
   childNodes (snd (run [Prepare, Get (SVGElement ''__proto__'' 0), Cleanup, Prepare, Cleanup] protoOnce)) 0
     = [1, 2] \<and>
   removed (snd (run [Prepare, Get (SVGElement ''__proto__'' 0), Cleanup, Prepare, Cleanup] protoOnce)) = []"
  by (simp add: protoOnce_def pool_run)

text \<open>
  Claim C2, on a pool that still holds a redundant node. The claim has \<open>prepareElements\<close>
  mark all pooled nodes as unused and the following \<open>cleanupElements\<close> detach every node
  that went unused. The code: the pool holds node 1 as the redundant \<open>rect\<close>;
  \<open>prepareElements\<close> overwrites that array with the empty \<open>used\<close> array, so node 1 is in no
  array any more; \<open>cleanupElements\<close> then returns without a single \<open>removeChild\<close>, and
  node 1 is still a child of the container.
\<close>

theorem prepare_forgets_leftover:
  "map_of (own (fst leftover)) ''rect'' = Some \<lparr>used = [], redundant = [1]\<rparr> \<and>
   prepareElements (fst leftover)
     = \<lparr>own = [(''rect'', \<lparr>used = [], redundant = []\<rparr>)], proto = None\<rparr> \<and>
   cleanupElements (prepareElements (fst leftover)) (snd leftover)
     = (None, prepareElements (fst leftover), snd leftover) \<and>
   parentNode (snd leftover) 1 = Some 0 \<and> childNodes (snd leftover) 0 = [1]"
  by (simp add: leftover_eq pool_run)

text \<open>
  Claim C1, for a draw pass that starts on a pool that still holds a redundant node. The
  claim has every node that was pooled before the pass and not acquired in it removed
  from its parent exactly once, and the pooled nodes still under the container equal to
  the used ones. The code: the pass (\<open>prepareElements\<close>, \<open>getSVGElement('circle', ...)\<close>,
  \<open>cleanupElements\<close>) returns with the new node 2 as the only used node, while node 1,
  pooled before the pass, is still a child of the container and \<open>removeChild\<close> was never
  called.
\<close>

theorem leftover_survives_cycle:
  "own (fst leftover) = [(''rect'', \<lparr>used = [], redundant = [1]\<rparr>)] \<and>
   parentNode (snd leftover) 1 = Some 0 \<and>
   fst (cleanupElements (fst (run [Prepare, Get (SVGElement ''circle'' 0)] leftover))
          (snd (run [Prepare, Get (SVGElement ''circle'' 0)] leftover))) = None \<and>
   own (fst (cycle [SVGElement ''circle'' 0] leftover))
     = [(''rect'', \<lparr>used = [], redundant = []\<rparr>), (''circle'', \<lparr>used = [2], redundant = []\<rparr>)] \<and>
   parentNode (snd (cycle [SVGElement ''circle'' 0] leftover)) 1 = Some 0 \<and>
   childNodes (snd (cycle [SVGElement ''circle'' 0] leftover)) 0 = [1, 2] \<and>
   removed (snd (cycle [SVGElement ''circle'' 0] leftover)) = []"
  by (simp add: leftover_eq pool_run)

text \<open>
  Claim C4, for the sequence \<open>getSVGElement('rect', ...)\<close>, \<open>prepareElements\<close>,
  \<open>resetElements\<close> on the empty pool (and for the same sequence ending in a second
  \<open>prepareElements\<close>). The claim has every redundant node reused or detached, and no pooled
  node ever left attached but untracked. The code: \<open>resetElements\<close> returns, the arrays of
  \<open>rect\<close> are both empty, and node 1, which the pool created, is still a child of the
  container with no \<open>removeChild\<close> ever called.
\<close>

theorem reset_leaves_node_attached:
  "fst (get (SVGElement ''rect'' 0) emptyPool doc0) = Inr 1 \<and>
   fst (resetElements (fst leftover) (snd leftover)) = None \<and>
   fst (run [Get (SVGElement ''rect'' 0), Prepare, Reset] (emptyPool, doc0))
     = \<lparr>own = [(''rect'', \<lparr>used = [], redundant = []\<rparr>)], proto = None\<rparr> \<and>
   parentNode (snd (run [Get (SVGElement ''rect'' 0), Prepare, Reset] (emptyPool, doc0))) 1 = Some 0 \<and>
   childNodes (snd (run [Get (SVGElement ''rect'' 0), Prepare, Reset] (emptyPool, doc0))) 0 = [1] \<and>
   removed (snd (run [Get (SVGElement ''rect'' 0), Prepare, Reset] (emptyPool, doc0))) = [] \<and>
   fst (run [Get (SVGElement ''rect'' 0), Prepare, Prepare] (emptyPool, doc0))
     = \<lparr>own = [(''rect'', \<lparr>used = [], redundant = []\<rparr>)], proto = None\<rparr> \<and>
   parentNode (snd (run [Get (SVGElement ''rect'' 0), Prepare, Prepare] (emptyPool, doc0))) 1 = Some 0"
  by (simp add: leftover_eq pool_run)

section \<open>Properties of drawBar\<close>

lemma attributes_setAttributeNS:
  "attributes (setAttributeNS el name v d) =
     (attributes d)(el := (attributes d el)(name \<mapsto> v))"
  by (simp add: setAttributeNS_def)

lemma setAttributeNS_frame:
  "created (setAttributeNS el name v d) = created d"
  "nodeName (setAttributeNS el name v d) = nodeName d"
  "parentNode (setAttributeNS el name v d) = parentNode d"
  "childNodes (setAttributeNS el name v d) = childNodes d"
  "removed (setAttributeNS el name v d) = removed d"
  by (simp_all add: setAttributeNS_def)

text \<open>
  Claim C8. A call of \<open>drawBar\<close> with height 0 acquires and creates nothing: it returns
  with the pool and the whole document exactly as they were. A call with a negative
  height draws a \<open>rect\<close> with height \<open>|height|\<close> and with its y coordinate decreased by
  \<open>|height|\<close>, the decrease being the machine's subtraction \<open>y - |height|\<close> (for doubles,
  \<open>height * -1\<close> is exactly \<open>-height\<close>, which is the hypothesis on \<open>times\<close>):
  \<^item> when the pool has no redundant \<open>rect\<close> and the SVG container is a node, the \<open>rect\<close> is a
    new \<open>svg:rect\<close> element, appended as the last child of the container and added to the
    \<open>used\<close> array of \<open>rect\<close>, with x, y, width, height, class and (if given) style set, and
    nothing else in the document changes;
  \<^item> when the pool has a redundant \<open>rect\<close>, the first one is moved to the \<open>used\<close> array and
    gets these attributes, and nothing else in the document changes.
\<close>

theorem drawBar_zero_negative:
  "(height = 0 \<longrightarrow> drawBar ar x y width height className J svgContainer style d = (None, J, d)) \<and>
   (height < 0 \<and> times ar height (- 1) = - height \<and> isNode d svgContainer \<and>
    (case map_of (own J) ''rect'' of None \<Rightarrow> True | Some e \<Rightarrow> redundant e = []) \<longrightarrow>
      (\<exists>d''.
         drawBar ar x y width height className J svgContainer style d =
           (None,
            (case map_of (own J) ''rect'' of
               None \<Rightarrow> J\<lparr>own := own J @ [(''rect'', \<lparr>used = [created d], redundant = []\<rparr>)]\<rparr>
             | Some e \<Rightarrow> J\<lparr>own := AList.update ''rect'' (e\<lparr>used := used e @ [created d]\<rparr>) (own J)\<rparr>),
            d'') \<and>
         created d'' = Suc (created d) \<and>
         nodeName d'' (created d) = (SVG, ''rect'') \<and>
         parentNode d'' (created d) = Some svgContainer \<and>
         childNodes d'' svgContainer = childNodes d svgContainer @ [created d] \<and>
         attributes d'' (created d) ''x'' = Some (Num (minus ar x (times ar 0.5 width))) \<and>
         attributes d'' (created d) ''y'' = Some (Num (minus ar y \<bar>height\<bar>)) \<and>
         attributes d'' (created d) ''width'' = Some (Num width) \<and>
         attributes d'' (created d) ''height'' = Some (Num \<bar>height\<bar>) \<and>
         attributes d'' (created d) ''class'' = Some (Str className) \<and>
         attributes d'' (created d) ''style'' =
           (case style of Some s \<Rightarrow> if s \<noteq> [] then Some (Str s) else None | None \<Rightarrow> None) \<and>
         (\<forall>n. n \<noteq> created d \<longrightarrow>
            parentNode d'' n = parentNode d n \<and> attributes d'' n = attributes d n) \<and>
         removed d'' = removed d)) \<and>
   (height < 0 \<and> times ar height (- 1) = - height \<and>
    map_of (own J) ''rect'' = Some e \<and> redundant e = r # rs \<longrightarrow>
      (\<exists>d''.
         drawBar ar x y width height className J svgContainer style d =
           (None,
            J\<lparr>own := AList.update ''rect'' (e\<lparr>redundant := rs, used := used e @ [r]\<rparr>) (own J)\<rparr>,
            d'') \<and>
         attributes d'' r ''x'' = Some (Num (minus ar x (times ar 0.5 width))) \<and>
         attributes d'' r ''y'' = Some (Num (minus ar y \<bar>height\<bar>)) \<and>
         attributes d'' r ''width'' = Some (Num width) \<and>
         attributes d'' r ''height'' = Some (Num \<bar>height\<bar>) \<and>
         attributes d'' r ''class'' = Some (Str className) \<and>
         attributes d'' r ''style'' =
           (case style of Some s \<Rightarrow> if s \<noteq> [] then Some (Str s) else attributes d r ''style''
            | None \<Rightarrow> attributes d r ''style'') \<and>
         (\<forall>n. n \<noteq> r \<longrightarrow> attributes d'' n = attributes d n) \<and>
         created d'' = created d \<and> parentNode d'' = parentNode d \<and>
         childNodes d'' = childNodes d \<and> removed d'' = removed d))"
proof (intro conjI impI)
  assume "height = 0"
  then show "drawBar ar x y width height className J svgContainer style d = (None, J, d)"
    by (simp add: drawBar_def)
next
  assume a: "height < 0 \<and> times ar height (- 1) = - height \<and> isNode d svgContainer \<and>
    (case map_of (own J) ''rect'' of None \<Rightarrow> True | Some e \<Rightarrow> redundant e = [])"
  then have c: "svgContainer < created d" by (simp add: isNode_def)
  show "\<exists>d''.
         drawBar ar x y width height className J svgContainer style d =
           (None,
            (case map_of (own J) ''rect'' of
               None \<Rightarrow> J\<lparr>own := own J @ [(''rect'', \<lparr>used = [created d], redundant = []\<rparr>)]\<rparr>
             | Some e \<Rightarrow> J\<lparr>own := AList.update ''rect'' (e\<lparr>used := used e @ [created d]\<rparr>) (own J)\<rparr>),
            d'') \<and>
         created d'' = Suc (created d) \<and>
         nodeName d'' (created d) = (SVG, ''rect'') \<and>
         parentNode d'' (created d) = Some svgContainer \<and>
         childNodes d'' svgContainer = childNodes d svgContainer @ [created d] \<and>
         attributes d'' (created d) ''x'' = Some (Num (minus ar x (times ar 0.5 width))) \<and>
         attributes d'' (created d) ''y'' = Some (Num (minus ar y \<bar>height\<bar>)) \<and>
         attributes d'' (created d) ''width'' = Some (Num width) \<and>
         attributes d'' (created d) ''height'' = Some (Num \<bar>height\<bar>) \<and>
         attributes d'' (created d) ''class'' = Some (Str className) \<and>
         attributes d'' (created d) ''style'' =
           (case style of Some s \<Rightarrow> if s \<noteq> [] then Some (Str s) else None | None \<Rightarrow> None) \<and>
         (\<forall>n. n \<noteq> created d \<longrightarrow>
            parentNode d'' n = parentNode d n \<and> attributes d'' n = attributes d n) \<and>
         removed d'' = removed d"
    using a c
    by (auto simp: drawBar_def Let_def getSVGElement_def createElement_def appendChild_def
          assign_def isNode_def attributes_setAttributeNS setAttributeNS_frame
          split: option.splits)
next
  assume a: "height < 0 \<and> times ar height (- 1) = - height \<and>
    map_of (own J) ''rect'' = Some e \<and> redundant e = r # rs"
  show "\<exists>d''.
         drawBar ar x y width height className J svgContainer style d =
           (None,
            J\<lparr>own := AList.update ''rect'' (e\<lparr>redundant := rs, used := used e @ [r]\<rparr>) (own J)\<rparr>,
            d'') \<and>
         attributes d'' r ''x'' = Some (Num (minus ar x (times ar 0.5 width))) \<and>
         attributes d'' r ''y'' = Some (Num (minus ar y \<bar>height\<bar>)) \<and>
         attributes d'' r ''width'' = Some (Num width) \<and>
         attributes d'' r ''height'' = Some (Num \<bar>height\<bar>) \<and>
         attributes d'' r ''class'' = Some (Str className) \<and>
         attributes d'' r ''style'' =
           (case style of Some s \<Rightarrow> if s \<noteq> [] then Some (Str s) else attributes d r ''style''
            | None \<Rightarrow> attributes d r ''style'') \<and>
         (\<forall>n. n \<noteq> r \<longrightarrow> attributes d'' n = attributes d n) \<and>
         created d'' = created d \<and> parentNode d'' = parentNode d \<and>
         childNodes d'' = childNodes d \<and> removed d'' = removed d"
    using a
    by (auto simp: drawBar_def Let_def getSVGElement_def attributes_setAttributeNS
          setAttributeNS_frame split: option.splits)
qed

theorem drawBar_zero_negative_witness:
  "drawBar coarse 10 20 4 0 ''bar'' emptyPool 0 None doc0 = (None, emptyPool, doc0) \<and>
   times coarse (- 5) (- 1) = 5 \<and> isNode doc0 0 \<and> map_of (own emptyPool) ''rect'' = None \<and>
   fst (snd (drawBar coarse 10 20 4 (- 5) ''bar'' emptyPool 0 None doc0))
     = \<lparr>own = [(''rect'', \<lparr>used = [1], redundant = []\<rparr>)], proto = None\<rparr> \<and>
   childNodes (snd (snd (drawBar coarse 10 20 4 (- 5) ''bar'' emptyPool 0 None doc0))) 0 = [1] \<and>
   attributes (snd (snd (drawBar coarse 10 20 4 (- 5) ''bar'' emptyPool 0 None doc0))) 1 ''height''
     = Some (Num 5) \<and>
   attributes (snd (snd (drawBar coarse 10 20 4 (- 5) ''bar'' emptyPool 0 None doc0))) 1 ''y''
     = Some (Num 15) \<and>
   attributes (snd (snd (drawBar coarse 10 20 4 (- 5) ''bar'' emptyPool 0 None doc0))) 1 ''x''
     = Some (Num 8) \<and>
   attributes (snd (snd (drawBar coarse 10 20 4 (- 1 / 2) ''bar'' emptyPool 0 None doc0))) 1 ''height''
     = Some (Num (1 / 2)) \<and>
   attributes (snd (snd (drawBar coarse 10 20 4 (- 1 / 2) ''bar'' emptyPool 0 None doc0))) 1 ''y''
     = Some (Num 20)"
  using drawBar_zero_negative [where ar = coarse and height = "- 5" and d = doc0
      and svgContainer = 0 and x = 10 and y = 20 and width = 4 and className = "''bar''"
      and J = emptyPool and style = None]
    drawBar_zero_negative [where ar = coarse and height = 0 and d = doc0
      and svgContainer = 0 and x = 10 and y = 20 and width = 4 and className = "''bar''"
      and J = emptyPool and style = None]
    drawBar_zero_negative [where ar = coarse and height = "- 1 / 2" and d = doc0
      and svgContainer = 0 and x = 10 and y = 20 and width = 4 and className = "''bar''"
      and J = emptyPool and style = None]
  by (auto simp: coarse_def doc0_def emptyPool_def isNode_def)

section \<open>Properties of getNavigatorLanguage\<close>

text \<open>
  Claim C5. Whatever \<open>navigator\<close> is (undeclared, falsy, or an object any of whose
  properties may throw when read), \<open>getNavigatorLanguage\<close> returns a value and never throws;
  when \<open>navigator\<close> is missing or the \<open>try\<close> block throws, that value is \<open>'en'\<close>.
\<close>

theorem getNavigatorLanguage_never_throws:
  "(\<exists>v. getNavigatorLanguage nav = Inr v) \<and>
   (nav = Undeclared \<or> nav = Falsy \<or> (\<exists>err. tryNavigatorLanguage nav = Inl err)
      \<longrightarrow> getNavigatorLanguage nav = Inr (JSString ''en''))"
  by (auto simp: getNavigatorLanguage_def tryNavigatorLanguage_def split: sum.splits)

theorem getNavigatorLanguage_never_throws_witness:
  "getNavigatorLanguage Undeclared = Inr (JSString ''en'') \<and>
   getNavigatorLanguage Falsy = Inr (JSString ''en'') \<and>
   tryNavigatorLanguage (Navigator throwingNavigator) = Inl TypeError \<and>
   getNavigatorLanguage (Navigator throwingNavigator) = Inr (JSString ''en'') \<and>
   getNavigatorLanguage (Navigator (throwingNavigator\<lparr>userLanguage := Gives JSUndefined\<rparr>))
     = Inr (JSString ''de'') \<and>
   getNavigatorLanguage (Navigator (throwingNavigator\<lparr>languages := Gives (JSArray [JSString ''fr''])\<rparr>))
     = Inr (JSArray [JSString ''fr''])"
  using getNavigatorLanguage_never_throws [of Undeclared]
    getNavigatorLanguage_never_throws [of Falsy]
    getNavigatorLanguage_never_throws [of "Navigator throwingNavigator"]
  by (simp add: getNavigatorLanguage_def tryNavigatorLanguage_def otherLanguage_def
        throwingNavigator_def)

section \<open>Properties of Graph2d\<close>

text \<open>
  Claim C6. For every options object on which validation returns, whether it found
  errors or not, \<open>Graph2d.prototype.setOptions\<close> goes on to \<open>Core.prototype.setOptions\<close> with
  the same options and instance and ends as that call ends; the console holds what
  validation wrote, followed by the message about errors exactly when validation returned
  \<open>true\<close>. With a validation that logs rather than throws, as the specification has it,
  this is so for every options object: \<open>setOptions\<close> throws only when
  \<open>Core.prototype.setOptions\<close> does.
\<close>

theorem setOptions_logs_and_proceeds:
  "(validate options = (written, Inr errorFound) \<longrightarrow>
      setOptions validate coreSetOptions options (console, this) =
        (console @ written @ (if errorFound = JSBool True then [errorsFound] else []),
         coreSetOptions options this)) \<and>
   (logsRatherThanThrows validate \<longrightarrow>
      snd (setOptions validate coreSetOptions options (console, this))
        = coreSetOptions options this \<and>
      (\<exists>written errorFound.
         validate options = (written, Inr (JSBool errorFound)) \<and>
         fst (setOptions validate coreSetOptions options (console, this))
           = console @ written @ (if errorFound then [errorsFound] else [])))"
proof (intro conjI impI)
  assume "validate options = (written, Inr errorFound)"
  then show "setOptions validate coreSetOptions options (console, this) =
        (console @ written @ (if errorFound = JSBool True then [errorsFound] else []),
         coreSetOptions options this)"
    by (simp add: setOptions_def)
next
  assume "logsRatherThanThrows validate"
  then obtain w b where v: "validate options = (w, Inr (JSBool b))"
    unfolding logsRatherThanThrows_def by blast
  then show "snd (setOptions validate coreSetOptions options (console, this))
        = coreSetOptions options this"
    by (simp add: setOptions_def)
  show "\<exists>written errorFound.
         validate options = (written, Inr (JSBool errorFound)) \<and>
         fst (setOptions validate coreSetOptions options (console, this))
           = console @ written @ (if errorFound then [errorsFound] else [])"
    using v by (intro exI [of _ w] exI [of _ b]) (simp add: setOptions_def)
qed

theorem setOptions_logs_and_proceeds_witness:
  "logsRatherThanThrows (\<lambda>opts :: nat. ([''Unknown option detected''], Inr (JSBool True))) \<and>
   setOptions (\<lambda>opts. ([''Unknown option detected''], Inr (JSBool True))) (\<lambda>opts g. Inr (opts # g))
       (5::nat) ([''earlier''], [])
     = ([''earlier'', ''Unknown option detected'', errorsFound], Inr [5]) \<and>
   setOptions (\<lambda>opts. ([''Unknown option detected''], Inr (JSBool True))) (\<lambda>opts g. Inl TypeError)
       (5::nat) ([''earlier''], [] :: nat list)
     = ([''earlier'', ''Unknown option detected'', errorsFound], Inl TypeError) \<and>
   setOptions (\<lambda>opts. ([], Inr (JSBool False))) (\<lambda>opts g. Inr (opts # g)) (5::nat) ([''earlier''], [])
     = ([''earlier''], Inr [5])"
  using setOptions_logs_and_proceeds [where validate = "\<lambda>opts. ([''Unknown option detected''], Inr (JSBool True))"
      and coreSetOptions = "\<lambda>opts g. Inr (opts # g)" and options = "5::nat" and console = "[''earlier'']"
      and this = "[]" and written = "[''Unknown option detected'']" and errorFound = "JSBool True"]
    setOptions_logs_and_proceeds [where validate = "\<lambda>opts. ([''Unknown option detected''], Inr (JSBool True))"
      and coreSetOptions = "\<lambda>opts g. Inl TypeError" and options = "5::nat"
      and console = "[''earlier'']" and this = "[] :: nat list"
      and written = "[''Unknown option detected'']" and errorFound = "JSBool True"]
    setOptions_logs_and_proceeds [where validate = "\<lambda>opts. ([], Inr (JSBool False))"
      and coreSetOptions = "\<lambda>opts g. Inr (opts # g)" and options = "5::nat" and console = "[''earlier'']"
      and this = "[]" and written = "[]" and errorFound = "JSBool False"]
  by (auto simp: logsRatherThanThrows_def)

text \<open>For an id that names a group, and for an id that names neither a group nor a member
  of \<open>Object.prototype\<close>, \<open>getLegend\<close> does what is expected: the group's legend with 15 for
  a width or height left out, and the message.\<close>

lemma getLegend_otherwise:
  "(groups groupId = None \<and> groupId \<notin> set objectPrototypeNames \<longrightarrow>
      getLegend groupLegend groups groupId width height =
        Inr (Message (''cannot find group:'' @ [CHR 0x27] @ groupId @ [CHR 0x27]))) \<and>
   (groups groupId = Some g \<longrightarrow>
      getLegend groupLegend groups groupId width height =
        map_sum id Legend
          (groupLegend g (if width = JSUndefined then JSNumber 15 else width)
             (if height = JSUndefined then JSNumber 15 else height)))"
  by (auto simp: getLegend_def readGroup_def Let_def split: sum.splits)

text \<open>
  Claim C10, at group ids that name a member of \<open>Object.prototype\<close>. The claim has
  \<open>getLegend\<close> return the string \<open>cannot find group:'<groupId>'\<close> without throwing for
  every id that is not among the groups. The code: with no groups at all, \<open>toString\<close>,
  \<open>constructor\<close> and \<open>__proto__\<close> are found by the lookup \<open>groups[groupId]\<close>, which is then
  asked for a \<open>getLegend\<close> method it does not have: a \<open>TypeError\<close>. An id like \<open>group7\<close>
  gets the message.
\<close>

theorem getLegend_inherited_name:
  "getLegend groupLegend Map.empty ''toString'' width height = Inl TypeError \<and>
   getLegend groupLegend Map.empty ''constructor'' width height = Inl TypeError \<and>
   getLegend groupLegend Map.empty ''__proto__'' width height = Inl TypeError \<and>
   getLegend groupLegend Map.empty ''group7'' width height
     = Inr (Message (''cannot find group:'' @ [CHR 0x27] @ ''group7'' @ [CHR 0x27]))"
  by (simp add: getLegend_def readGroup_def objectPrototypeNames_def Let_def)

text \<open>
  Claim C9, as the code has it. When the third constructor argument is an object with the
  page's \<open>Object.prototype\<close> on its prototype chain (\<open>instanceof Object\<close>) that is not
  DataView-like, the third and fourth arguments are swapped: the constructor calls
  \<open>setOptions\<close> with the third and, if the fourth is given (truthy), \<open>setGroups\<close> with the
  fourth. In every other case (an array, a DataView-like value, or a value that is not an
  instance of \<open>Object\<close>) the arguments keep their places.
\<close>

theorem Graph2d_swaps_arguments:
  "(groups = JSObject ps \<and> \<not> isDataViewLike groups \<longrightarrow>
     Graph2d_arguments isDataViewLike groups options = (options, groups) \<and>
     Graph2d isDataViewLike items groups options =
       SetOptions groups #
       (if truthy options then [SetGroups options] else []) @
       (if truthy items then [SetItems items] else []) @ [Redraw]) \<and>
   (isArray groups \<or> isDataViewLike groups \<or> \<not> instanceofObject groups \<longrightarrow>
     Graph2d_arguments isDataViewLike groups options = (groups, options) \<and>
     Graph2d isDataViewLike items groups options =
       (if truthy options then [SetOptions options] else []) @
       (if truthy groups then [SetGroups groups] else []) @
       (if truthy items then [SetItems items] else []) @ [Redraw])"
  by (auto simp: Graph2d_def Graph2d_arguments_def)

theorem Graph2d_swaps_arguments_witness:
  "Graph2d (\<lambda>v. False) (JSArray []) (JSObject [(''height'', JSNumber 100)]) (JSArray [JSNumber 1])
     = [SetOptions (JSObject [(''height'', JSNumber 100)]), SetGroups (JSArray [JSNumber 1]),
        SetItems (JSArray []), Redraw] \<and>
   Graph2d (\<lambda>v. False) (JSArray []) (JSObject [(''height'', JSNumber 100)]) JSUndefined
     = [SetOptions (JSObject [(''height'', JSNumber 100)]), SetItems (JSArray []), Redraw] \<and>
   isArray (JSArray [JSNumber 1]) \<and>
   Graph2d (\<lambda>v. False) (JSArray []) (JSArray [JSNumber 1]) (JSObject [(''height'', JSNumber 100)])
     = [SetOptions (JSObject [(''height'', JSNumber 100)]), SetGroups (JSArray [JSNumber 1]),
        SetItems (JSArray []), Redraw]"
  using Graph2d_swaps_arguments [where groups = "JSObject [(''height'', JSNumber 100)]"
      and ps = "[(''height'', JSNumber 100)]"
      and isDataViewLike = "\<lambda>v. False" and items = "JSArray []" and options = "JSArray [JSNumber 1]"]
    Graph2d_swaps_arguments [where groups = "JSObject [(''height'', JSNumber 100)]"
      and ps = "[(''height'', JSNumber 100)]"
      and isDataViewLike = "\<lambda>v. False" and items = "JSArray []" and options = JSUndefined]
    Graph2d_swaps_arguments [where groups = "JSArray [JSNumber 1]"
      and isDataViewLike = "\<lambda>v. False" and items = "JSArray []"
      and options = "JSObject [(''height'', JSNumber 100)]"]
  by simp

text \<open>An object made by \<open>Object.create(null)\<close> as third argument is an object, no array and
  not DataView-like, and is not swapped: it goes to \<open>setGroups\<close>.\<close>

theorem Graph2d_swaps_arguments_counterexample:
  "\<not> isArray (JSBareObject [(''height'', JSNumber 100)]) \<and>
   Graph2d_arguments (\<lambda>v. False) (JSBareObject [(''height'', JSNumber 100)]) (JSArray [JSNumber 1])
     = (JSBareObject [(''height'', JSNumber 100)], JSArray [JSNumber 1]) \<and>
   Graph2d (\<lambda>v. False) (JSArray []) (JSBareObject [(''height'', JSNumber 100)]) (JSArray [JSNumber 1])
     = [SetOptions (JSArray [JSNumber 1]), SetGroups (JSBareObject [(''height'', JSNumber 100)]),
        SetItems (JSArray []), Redraw]"
  by (simp add: Graph2d_def Graph2d_arguments_def)

lemma initialDraw_timeouts:
  "timeouts (snd (initialDraw s me)) \<le> timeouts me + (if initialDrawDone me then 0 else 1) \<and>
   (timeouts (snd (initialDraw s me)) \<noteq> timeouts me \<longrightarrow> initialDrawDone (snd (initialDraw s me))) \<and>
   (initialDrawDone me \<longrightarrow> initialDrawDone (snd (initialDraw s me)))"
  by (simp add: initialDraw_def Let_def)

lemma changed_timeouts:
  "timeouts (snd (changed ev me)) \<le> timeouts me + (if initialDrawDone me then 0 else 1) \<and>
   (timeouts (snd (changed ev me)) \<noteq> timeouts me \<longrightarrow> initialDrawDone (snd (changed ev me))) \<and>
   (initialDrawDone me \<longrightarrow> initialDrawDone (snd (changed ev me)))"
  using initialDraw_timeouts [of "found ev" me]
    initialDraw_timeouts [of _ "me\<lparr>initialFitDone := True\<rparr>"]
  by (auto simp: changed_def split: sum.splits)

text \<open>
  Claim C7. Over every sequence of \<open>'changed'\<close> events, from every state of the instance,
  the handler gives at most one callback to \<open>setTimeout\<close>, and none once \<open>initialDrawDone\<close>
  is set. (A \<open>'changed'\<close> event emitted while the handler waits for \<open>setWindow\<close> or \<open>fit\<close>
  is one more event of the sequence: the handler tests and sets \<open>initialDrawDone\<close> with no
  call in between.)
\<close>

theorem initial_draw_complete_once:
  "timeouts (emit evs me) \<le> timeouts me + (if initialDrawDone me then 0 else 1)"
proof (induction evs arbitrary: me)
  case Nil
  then show ?case by simp
next
  case (Cons ev evs)
  let ?me = "snd (changed ev me)"
  from changed_timeouts [of ev me] Cons.IH [of ?me] show ?case
    by (cases "initialDrawDone me"; cases "timeouts ?me = timeouts me") (auto split: if_splits)
qed

theorem initial_draw_complete_once_witness:
  "timeouts (emit [firstChange, firstChange, firstChange] newGraph2d) = 1 \<and>
   timeouts newGraph2d = 0 \<and> \<not> initialDrawDone newGraph2d \<and>
   initialDrawDone (emit [firstChange] newGraph2d)"
  using initial_draw_complete_once [of "[firstChange, firstChange, firstChange]" newGraph2d]
  by (simp add: firstChange_def newGraph2d_def changed_def initialDraw_def Let_def)

end
